theory Spec2Isabelle
  imports
    Complex_Main
    "HOL-Library.Char_ord"
    "HOL-Library.List_Lexorder"
    "HOL-Library.Multiset"
    "HOL-Library.Product_Lexorder"
begin

section \<open>Story tree\<close>

text \<open>
  The dataclass \<open>Node\<close> of \<open>main.py\<close>: the scenario text, the two option labels, the two
  score deltas and the two optional children. Fields keep the source's names. The tree is
  built by fresh allocation only (every child is a new \<open>Node(...)\<close> owned by its parent), so
  the in-place mutation of the source is modelled by returning the updated node.
\<close>

datatype Node = Node
  (story_text: string)
  (option1_text: string)
  (option2_text: string)
  (option1_score: int)
  (option2_score: int)
  (option1: "Node option")
  (option2: "Node option")

text \<open>\<open>Node(text)\<close>: every other field takes its default.\<close>

definition new_node :: "string \<Rightarrow> Node" where
  "new_node t = Node t [] [] 0 0 None None"

text \<open>The exceptions of the source that the modelled paths can raise.\<close>

datatype error = ValueError | EOFError | AttributeError | TypeError

section \<open>Strings as the source reads them\<close>

text \<open>
  Characters are the ASCII characters of a line typed at the terminal. \<open>str.lower\<close>,
  \<open>str.strip\<close> and \<open>int\<close> are modelled on them.
\<close>

definition lower_char :: "char \<Rightarrow> char" where
  "lower_char c =
     (if CHR ''A'' \<le> c \<and> c \<le> CHR ''Z'' then char_of (of_char c + (32::nat)) else c)"

definition lower :: "string \<Rightarrow> string" where
  "lower s = map lower_char s"

definition is_space :: "char \<Rightarrow> bool" where
  "is_space c =
     (let n = (of_char c :: nat) in (9 \<le> n \<and> n \<le> 13) \<or> (28 \<le> n \<and> n \<le> 32))"

definition strip :: "string \<Rightarrow> string" where
  "strip s = rev (dropWhile is_space (rev (dropWhile is_space s)))"

definition is_digit :: "char \<Rightarrow> bool" where
  "is_digit c = (CHR ''0'' \<le> c \<and> c \<le> CHR ''9'')"

definition digit_val :: "char \<Rightarrow> nat" where
  "digit_val c = of_char c - 48"

text \<open>
  The digits of a decimal literal after its first digit: single underscores are allowed
  between digits, as in \<open>int("1_000")\<close>.
\<close>

fun digits_from :: "nat \<Rightarrow> string \<Rightarrow> nat option" where
  "digits_from acc [] = Some acc"
| "digits_from acc [c] = (if is_digit c then Some (10 * acc + digit_val c) else None)"
| "digits_from acc (c # d # cs) =
     (if c = CHR ''_''
      then (if is_digit d then digits_from (10 * acc + digit_val d) cs else None)
      else if is_digit c then digits_from (10 * acc + digit_val c) (d # cs)
      else None)"

definition unsigned_int :: "string \<Rightarrow> nat option" where
  "unsigned_int s =
     (case s of
        [] \<Rightarrow> None
      | c # cs \<Rightarrow> if is_digit c then digits_from (digit_val c) cs else None)"

text \<open>
  \<open>int(s)\<close> on a line of ASCII text: surrounding whitespace is dropped, a sign may come
  first. \<open>None\<close> stands for the \<open>ValueError\<close> it raises.
\<close>

definition py_int :: "string \<Rightarrow> int option" where
  "py_int s =
     (case strip s of
        [] \<Rightarrow> None
      | c # cs \<Rightarrow>
          if c = CHR ''-'' then map_option (\<lambda>n. - int n) (unsigned_int cs)
          else if c = CHR ''+'' then map_option int (unsigned_int cs)
          else map_option int (unsigned_int (c # cs)))"

section \<open>Authoring engine\<close>

text \<open>
  \<open>input()\<close> takes the next line of the terminal input, modelled as a list of lines; at the
  end of the input it raises \<open>EOFError\<close>. The banners printed while authoring carry no
  state and are left out.

  \<open>read_options\<close> is the straight-line part of \<open>_create_node\<close> (lines 51 to 65): the label,
  score and outcome text of option 1, then of option 2, each assigned to the current node
  as soon as it is read. A failure returns the node as the assignments made so far have
  left it.
\<close>

fun read_options :: "Node \<Rightarrow> string list \<Rightarrow> (error \<times> Node \<times> string list) + (Node \<times> string list)" where
  "read_options (Node t c1 c2 s1 s2 n1 n2) ins =
     (case ins of
        [] \<Rightarrow> Inl (EOFError, Node t c1 c2 s1 s2 n1 n2, [])
      | a1 # i1 \<Rightarrow>
     (case i1 of
        [] \<Rightarrow> Inl (EOFError, Node t a1 c2 s1 s2 n1 n2, [])
      | b1 # i2 \<Rightarrow>
     (case py_int b1 of
        None \<Rightarrow> Inl (ValueError, Node t a1 c2 s1 s2 n1 n2, i2)
      | Some v1 \<Rightarrow>
     (case i2 of
        [] \<Rightarrow> Inl (EOFError, Node t a1 c2 v1 s2 n1 n2, [])
      | r1 # i3 \<Rightarrow>
     (case i3 of
        [] \<Rightarrow> Inl (EOFError, Node t a1 c2 v1 s2 (Some (new_node r1)) n2, [])
      | a2 # i4 \<Rightarrow>
     (case i4 of
        [] \<Rightarrow> Inl (EOFError, Node t a1 a2 v1 s2 (Some (new_node r1)) n2, [])
      | b2 # i5 \<Rightarrow>
     (case py_int b2 of
        None \<Rightarrow> Inl (ValueError, Node t a1 a2 v1 s2 (Some (new_node r1)) n2, i5)
      | Some v2 \<Rightarrow>
     (case i5 of
        [] \<Rightarrow> Inl (EOFError, Node t a1 a2 v1 v2 (Some (new_node r1)) n2, [])
      | r2 # i6 \<Rightarrow>
          Inr (Node t a1 a2 v1 v2 (Some (new_node r1)) (Some (new_node r2)), i6)))))))))"

text \<open>Assignment to the fields \<open>option1\<close> and \<open>option2\<close> of a node.\<close>

definition set_option1 :: "Node \<Rightarrow> Node option \<Rightarrow> Node" where
  "set_option1 n c =
     Node (story_text n) (option1_text n) (option2_text n) (option1_score n) (option2_score n)
       c (option2 n)"

definition set_option2 :: "Node \<Rightarrow> Node option \<Rightarrow> Node" where
  "set_option2 n c =
     Node (story_text n) (option1_text n) (option2_text n) (option1_score n) (option2_score n)
       (option1 n) c"

text \<open>
  \<open>_create_node\<close>. The argument is optional as in the source, whose first statement returns
  on an absent node. The result is the exception raised (if any), the node as the call has
  left it, and the input not yet read. The children are mutated in place by the recursive
  calls, so the parent holds whatever a failing call has built so far.
\<close>

function create_node ::
  "Node option \<Rightarrow> string list \<Rightarrow> error option \<times> Node option \<times> string list" where
  "create_node None ins = (None, None, ins)"
| "create_node (Some n) [] = (Some EOFError, Some n, [])"
| "create_node (Some n) (a # ins) =
     (if lower a = ''y'' then (None, Some n, ins)
      else
        (case read_options n ins of
           Inl (e, n', rest) \<Rightarrow> (Some e, Some n', rest)
         | Inr (n', rest) \<Rightarrow>
             (case create_node (option1 n') rest of
                (Some e, child1, rest1) \<Rightarrow> (Some e, Some (set_option1 n' child1), rest1)
              | (None, child1, rest1) \<Rightarrow>
                  (case create_node (option2 n') rest1 of
                     (e2, child2, rest2) \<Rightarrow>
                        (e2, Some (set_option2 (set_option1 n' child1) child2), rest2)))))"
  by pat_completeness auto

lemma read_options_Inl_length:
  "read_options n ins = Inl (e, n', rest) \<Longrightarrow> length rest \<le> length ins"
  by (cases n) (auto split: list.splits option.splits)

lemma read_options_Inr_length:
  "read_options n ins = Inr (n', rest) \<Longrightarrow> length rest < length ins"
  by (cases n) (auto split: list.splits option.splits)

lemma create_node_length:
  "create_node_dom (n, ins) \<Longrightarrow> length (snd (snd (create_node n ins))) \<le> length ins"
proof (induction n ins rule: create_node.pinduct)
  case (1 ins)
  then show ?case by (simp add: create_node.psimps)
next
  case (2 n)
  then show ?case by (simp add: create_node.psimps)
next
  case (3 n a ins)
  note dom = "3.hyps"
  show ?case
  proof (cases "lower a = ''y''")
    case True
    with dom show ?thesis by (simp add: create_node.psimps)
  next
    case no: False
    show ?thesis
    proof (cases "read_options n ins")
      case (Inl f)
      obtain e n' rest where f: "f = (e, n', rest)" by (cases f)
      from Inl f have "length rest \<le> length ins" by (auto dest: read_options_Inl_length)
      with dom no Inl f show ?thesis by (simp add: create_node.psimps)
    next
      case (Inr p)
      obtain m rest where p: "p = (m, rest)" by (cases p)
      from Inr p have len: "length rest < length ins" by (auto dest: read_options_Inr_length)
      obtain e1 child1 rest1 where r1: "create_node (option1 m) rest = (e1, child1, rest1)"
        by (cases "create_node (option1 m) rest")
      have "length (snd (snd (create_node (option1 m) rest))) \<le> length rest"
        using "3.IH"(1) [OF no Inr p [symmetric]] .
      with r1 have len1: "length rest1 \<le> length rest" by simp
      show ?thesis
      proof (cases e1)
        case (Some e)
        with dom no Inr p len r1 len1 show ?thesis by (simp add: create_node.psimps)
      next
        case e1: None
        obtain e2 child2 rest2 where r2: "create_node (option2 m) rest1 = (e2, child2, rest2)"
          by (cases "create_node (option2 m) rest1")
        have "length (snd (snd (create_node (option2 m) rest1))) \<le> length rest1"
          using "3.IH"(2) [OF no Inr p [symmetric] r1 [symmetric] e1 refl] .
        with r2 have "length rest2 \<le> length rest1" by simp
        with dom no Inr p len r1 len1 e1 r2 show ?thesis
          by (simp add: create_node.psimps)
      qed
    qed
  qed
qed

lemma create_node_length_rev:
  "(e, c, rest) = create_node n ins \<Longrightarrow> create_node_dom (n, ins) \<Longrightarrow>
   length rest \<le> length ins"
  using create_node_length [of n ins] by (metis snd_conv)

termination create_node
proof (relation "measure (\<lambda>(n, ins). length ins)", goal_cases)
  case 1
  show ?case by simp
next
  case 2
  then show ?case by (auto dest: read_options_Inr_length)
next
  case 3
  then show ?case
    by (fastforce dest: read_options_Inr_length create_node_length_rev)
qed

section \<open>Score entries\<close>

text \<open>
  The values \<open>json.load\<close> returns and \<open>json.dump\<close> accepts. A float is the rational it
  denotes (the not-a-number and infinite floats are outside the model). A dictionary is the
  list of its items in insertion order, with distinct keys.
\<close>

datatype json =
    JNull
  | JBool bool
  | JInt int
  | JFloat rat
  | JStr string
  | JList "json list"
  | JDict "(string \<times> json) list"

text \<open>The number a value is, for \<open>int\<close>, \<open>float\<close> and \<open>bool\<close> (a subclass of \<open>int\<close>).\<close>

fun num_val :: "json \<Rightarrow> rat option" where
  "num_val (JBool b) = Some (if b then 1 else 0)"
| "num_val (JInt i) = Some (of_int i)"
| "num_val (JFloat q) = Some q"
| "num_val _ = None"

lemma size_zip_fst: "(x, y) \<in> set (zip xs ys) \<Longrightarrow> size x < Suc (size_list size xs)"
  by (metis set_zip_leftD size_list_estimation' le_imp_less_Suc order_refl)

lemma size_dict_val:
  "(k, v) \<in> set d \<Longrightarrow> size v < Suc (size_list (size_prod (\<lambda>x. 0) size) d)"
  by (induction d) auto

text \<open>Python's \<open>==\<close> on these values.\<close>

function (sequential) py_eq :: "json \<Rightarrow> json \<Rightarrow> bool" where
  "py_eq (JStr s) (JStr t) = (s = t)"
| "py_eq JNull JNull = True"
| "py_eq (JList xs) (JList ys) =
     (length xs = length ys \<and> (\<forall>(x, y) \<in> set (zip xs ys). py_eq x y))"
| "py_eq (JDict d) (JDict e) =
     (length d = length e \<and>
      (\<forall>(k, v) \<in> set d. case map_of e k of None \<Rightarrow> False | Some w \<Rightarrow> py_eq v w))"
| "py_eq a b = (case (num_val a, num_val b) of (Some x, Some y) \<Rightarrow> x = y | _ \<Rightarrow> False)"
  by pat_completeness auto
termination
  by (relation "measure (\<lambda>(a, b). size a)") (auto simp: size_zip_fst size_dict_val)

text \<open>
  Python's \<open><\<close>: \<open>None\<close> stands for the \<open>TypeError\<close> raised when the operands cannot be
  ordered. Strings are ordered lexicographically by character code.
\<close>

fun py_lt :: "json \<Rightarrow> json \<Rightarrow> bool option"
  and list_lt :: "json list \<Rightarrow> json list \<Rightarrow> bool option" where
  "py_lt (JStr s) (JStr t) = Some (s < t)"
| "py_lt (JList xs) (JList ys) = list_lt xs ys"
| "py_lt a b = (case (num_val a, num_val b) of (Some x, Some y) \<Rightarrow> Some (x < y) | _ \<Rightarrow> None)"
| "list_lt [] [] = Some False"
| "list_lt [] (y # ys) = Some True"
| "list_lt (x # xs) [] = Some False"
| "list_lt (x # xs) (y # ys) = (if py_eq x y then list_lt xs ys else py_lt x y)"

text \<open>Truth value of a value, as \<open>not self.high_scores\<close> tests it.\<close>

fun truthy :: "json \<Rightarrow> bool" where
  "truthy JNull = False"
| "truthy (JBool b) = b"
| "truthy (JInt i) = (i \<noteq> 0)"
| "truthy (JFloat q) = (q \<noteq> 0)"
| "truthy (JStr s) = (s \<noteq> [])"
| "truthy (JList xs) = (xs \<noteq> [])"
| "truthy (JDict d) = (d \<noteq> [])"

text \<open>
  What a \<open>for\<close> loop iterates over: the elements of a list, the characters of a string, the
  keys of a dictionary; \<open>None\<close> stands for the \<open>TypeError\<close> of a value that is not iterable.
\<close>

fun py_iter :: "json \<Rightarrow> json list option" where
  "py_iter (JList xs) = Some xs"
| "py_iter (JStr s) = Some (map (\<lambda>c. JStr [c]) s)"
| "py_iter (JDict d) = Some (map (\<lambda>p. JStr (fst p)) d)"
| "py_iter _ = None"

text \<open>\<open>entry.get(k)\<close> on a dictionary.\<close>

fun dict_get :: "json \<Rightarrow> string \<Rightarrow> json option" where
  "dict_get (JDict d) k = map_of d k"
| "dict_get _ k = None"

definition get_default :: "json \<Rightarrow> string \<Rightarrow> json \<Rightarrow> json" where
  "get_default e k dflt = (case dict_get e k of None \<Rightarrow> dflt | Some v \<Rightarrow> v)"

section \<open>Game state and the score file\<close>

text \<open>The two attributes of \<open>AdventureGame\<close>.\<close>

record AdventureGame =
  root :: "Node option"
  high_scores :: json

text \<open>
  The file \<open>high_scores.json\<close> as \<open>open\<close> and \<open>json.load\<close> see it: absent
  (\<open>FileNotFoundError\<close>), not readable (any other exception, with its message), text that
  is not JSON (\<open>JSONDecodeError\<close>), or the text of a JSON document. A document is
  identified with the value it encodes: \<open>json.load\<close> of the text written by \<open>json.dump v\<close>
  is \<open>v\<close>.
\<close>

datatype score_file = Missing | Unreadable string | Invalid_json | Document json

text \<open>
  The file system: the score file, and whether opening it for writing fails (with the
  message of the exception).
\<close>

record filesystem =
  score_file :: score_file
  write_error :: "string option"

text \<open>What the program shows: a printed line, the prompt of an \<open>input\<close>, a row of the score
  table (its three fields before padding).\<close>

datatype event = Print string | Prompt string | Row string json json

definition nl :: string where
  "nl = [CHR 0x0A]"

definition save_high_scores :: "AdventureGame \<Rightarrow> filesystem \<Rightarrow> event list \<times> filesystem" where
  "save_high_scores g fs =
     (case write_error fs of
        None \<Rightarrow> ([], fs\<lparr>score_file := Document (high_scores g)\<rparr>)
      | Some msg \<Rightarrow> ([Print (nl @ ''Error saving high scores: '' @ msg)], fs))"

definition load_high_scores :: "AdventureGame \<Rightarrow> filesystem \<Rightarrow> event list \<times> AdventureGame" where
  "load_high_scores g fs =
     (case score_file fs of
        Document v \<Rightarrow> ([], g\<lparr>high_scores := v\<rparr>)
      | Missing \<Rightarrow> ([], g\<lparr>high_scores := JList []\<rparr>)
      | Invalid_json \<Rightarrow>
          ([Print (nl @ ''Error loading high scores file. Starting with empty scores.'')],
           g\<lparr>high_scores := JList []\<rparr>)
      | Unreadable msg \<Rightarrow>
          ([Print (nl @ ''Error loading high scores: '' @ msg)], g\<lparr>high_scores := JList []\<rparr>))"

text \<open>\<open>AdventureGame()\<close>.\<close>

definition init :: "filesystem \<Rightarrow> event list \<times> AdventureGame" where
  "init fs = load_high_scores \<lparr>root = None, high_scores = JList []\<rparr> fs"

text \<open>\<open>create_game\<close>: the root is assigned before \<open>_create_node\<close> fills it in place.\<close>

fun create_game ::
  "AdventureGame \<Rightarrow> string list \<Rightarrow> error option \<times> AdventureGame \<times> string list" where
  "create_game g [] = (Some EOFError, g, [])"
| "create_game g (initial_text # ins) =
     (case create_node (Some (new_node initial_text)) ins of
        (e, r, rest) \<Rightarrow> (e, g\<lparr>root := r\<rparr>, rest))"

section \<open>Score display\<close>

text \<open>The record a bare number is upgraded to (lines 157 to 161).\<close>

definition legacy_record :: "json \<Rightarrow> json" where
  "legacy_record v =
     JDict [(''player_name'', JStr ''Unknown''), (''score'', v), (''date'', JStr ''Unknown'')]"

text \<open>
  One step of the loop of lines 153 to 161: what an entry adds to \<open>valid_scores\<close>.
  \<open>isinstance(entry, (int, float))\<close> holds of a \<open>bool\<close> as well.
\<close>

fun normalize_entry :: "json \<Rightarrow> json list" where
  "normalize_entry (JDict d) = (if map_of d ''score'' \<noteq> None then [JDict d] else [])"
| "normalize_entry (JInt i) = [legacy_record (JInt i)]"
| "normalize_entry (JFloat q) = [legacy_record (JFloat q)]"
| "normalize_entry (JBool b) = [legacy_record (JBool b)]"
| "normalize_entry _ = []"

definition valid_scores :: "json list \<Rightarrow> json list" where
  "valid_scores entries = concat (map normalize_entry entries)"

text \<open>The sort key \<open>(x["score"], x.get("date", ""))\<close>; \<open>None\<close> when \<open>x["score"]\<close> raises.\<close>

definition score_key :: "json \<Rightarrow> (json \<times> json) option" where
  "score_key x =
     (case dict_get x ''score'' of
        None \<Rightarrow> None
      | Some s \<Rightarrow> Some (s, get_default x ''date'' (JStr [])))"

text \<open>Python's \<open><\<close> on pairs: the first components that differ decide.\<close>

definition key_lt :: "json \<times> json \<Rightarrow> json \<times> json \<Rightarrow> bool option" where
  "key_lt a b =
     (if \<not> py_eq (fst a) (fst b) then py_lt (fst a) (fst b)
      else if \<not> py_eq (snd a) (snd b) then py_lt (snd a) (snd b)
      else Some False)"

text \<open>
  \<open>sorted(valid_scores, key=..., reverse=True)\<close>. The sort is stable and descending: an
  entry is placed before the first entry that its key is not less than. Python raises
  \<open>TypeError\<close> when the sort compares two keys that cannot be ordered; the model raises it
  when the list holds two such keys.
\<close>

fun all_comparable :: "(json \<times> json) list \<Rightarrow> bool" where
  "all_comparable [] = True"
| "all_comparable (k # ks) =
     ((\<forall>k' \<in> set ks. key_lt k k' \<noteq> None \<and> key_lt k' k \<noteq> None) \<and> all_comparable ks)"

fun insert_desc :: "json \<times> (json \<times> json) \<Rightarrow> (json \<times> (json \<times> json)) list \<Rightarrow> (json \<times> (json \<times> json)) list" where
  "insert_desc x [] = [x]"
| "insert_desc x (y # ys) =
     (if key_lt (snd x) (snd y) = Some True then y # insert_desc x ys else x # y # ys)"

definition sorted_scores :: "json list \<Rightarrow> error + json list" where
  "sorted_scores valid =
     (if list_all (\<lambda>x. score_key x \<noteq> None) valid
      then (let keyed = map (\<lambda>x. (x, the (score_key x))) valid in
            if all_comparable (map snd keyed)
            then Inr (map fst (foldr insert_desc keyed []))
            else Inl TypeError)
      else Inl TypeError)"

text \<open>
  One row of the table (lines 175 to 179): the name is sliced, so it has to be a string;
  score and date are formatted with a width, which numbers and strings accept and \<open>None\<close>,
  lists and dictionaries do not.
\<close>

fun formattable :: "json \<Rightarrow> bool" where
  "formattable JNull = False"
| "formattable (JList xs) = False"
| "formattable (JDict d) = False"
| "formattable _ = True"

definition table_row :: "json \<Rightarrow> error + event" where
  "table_row x =
     (case get_default x ''player_name'' (JStr ''Unknown'') of
        JStr name \<Rightarrow>
          (case dict_get x ''score'' of
             None \<Rightarrow> Inl TypeError
           | Some s \<Rightarrow>
               if formattable s \<and> formattable (get_default x ''date'' (JStr ''Unknown''))
               then Inr (Row (take 20 name) s (get_default x ''date'' (JStr ''Unknown'')))
               else Inl TypeError)
      | _ \<Rightarrow> Inl TypeError)"

fun print_rows :: "json list \<Rightarrow> event list \<times> error option" where
  "print_rows [] = ([], None)"
| "print_rows (x # xs) =
     (case table_row x of
        Inl e \<Rightarrow> ([], Some e)
      | Inr ev \<Rightarrow> (case print_rows xs of (evs, r) \<Rightarrow> (ev # evs, r)))"

definition ljust :: "nat \<Rightarrow> string \<Rightarrow> string" where
  "ljust n s = s @ replicate (n - length s) CHR '' ''"

definition table_header :: "event list" where
  "table_header =
     [Print (nl @ ljust 20 ''Player'' @ '' '' @ ljust 10 ''Score'' @ '' '' @ ljust 20 ''Date''),
      Print (replicate 50 CHR ''='')]"

text \<open>
  The body of the \<open>try\<close> of \<open>show_high_scores\<close> (lines 151 to 182): what it has printed, and
  either the exception raised or the state it ends in.
\<close>

definition show_body ::
  "AdventureGame \<Rightarrow> filesystem \<Rightarrow> event list \<times> (error + AdventureGame \<times> filesystem)" where
  "show_body g fs =
     (case py_iter (high_scores g) of
        None \<Rightarrow> ([], Inl TypeError)
      | Some entries \<Rightarrow>
          (let valid = valid_scores entries;
               g1 = g\<lparr>high_scores := JList valid\<rparr>
           in case sorted_scores valid of
                Inl e \<Rightarrow> ([Print (nl @ ''High Scores:'')], Inl e)
              | Inr sorted_list \<Rightarrow>
                  (case print_rows sorted_list of
                     (rows, Some e) \<Rightarrow>
                       (Print (nl @ ''High Scores:'') # table_header @ rows, Inl e)
                   | (rows, None) \<Rightarrow>
                       (case save_high_scores g1 fs of
                          (out, fs') \<Rightarrow>
                            (Print (nl @ ''High Scores:'') # table_header @ rows @ out,
                             Inr (g1, fs'))))))"

definition show_high_scores ::
  "AdventureGame \<Rightarrow> filesystem \<Rightarrow> event list \<times> AdventureGame \<times> filesystem" where
  "show_high_scores g fs =
     (if \<not> truthy (high_scores g) then ([Print (nl @ ''No scores recorded yet!'')], g, fs)
      else
        (case show_body g fs of
           (out, Inr (g', fs')) \<Rightarrow> (out, g', fs')
         | (out, Inl e) \<Rightarrow>
             (let g0 = g\<lparr>high_scores := JList []\<rparr> in
              case save_high_scores g0 fs of
                (out', fs') \<Rightarrow>
                  (out @ Print (nl @ ''Error displaying high scores. Clearing corrupted scores.'')
                     # out',
                   g0, fs'))))"

section \<open>Play engine\<close>

text \<open>Decimal text of an integer, as an f-string renders it.\<close>

fun show_nat :: "nat \<Rightarrow> string" where
  "show_nat n =
     (if n < 10 then [char_of (48 + n)]
      else show_nat (n div 10) @ [char_of (48 + n mod 10)])"

declare show_nat.simps [simp del]

definition show_int :: "int \<Rightarrow> string" where
  "show_int i = (if i < 0 then CHR ''-'' # show_nat (nat (- i)) else show_nat (nat i))"

text \<open>How the loop of lines 95 to 125 ends: at an ending, or with an exception.\<close>

datatype play_outcome =
    Ended int "(string \<times> string) list" "string list"
  | Raised error "string list"

definition scene :: "Node \<Rightarrow> event list" where
  "scene n = [Print (nl @ replicate 50 CHR ''=''), Print (story_text n)]"

definition options_menu :: "Node \<Rightarrow> event list" where
  "options_menu n =
     [Print (nl @ ''Your options:''),
      Print (''1: '' @ option1_text n),
      Print (''2: '' @ option2_text n),
      Prompt (nl @ ''Enter your choice (1/2): '')]"

definition invalid_choice :: event where
  "invalid_choice = Print ''Invalid choice! Please choose 1 or 2''"

text \<open>
  The \<open>while current_node\<close> loop, with \<open>total_score\<close> and \<open>choices_made\<close> as accumulators.
  Each recursive call is one more iteration; it is returned with the lines the earlier
  iterations have shown in front.
\<close>

fun play_loop ::
  "Node \<Rightarrow> int \<Rightarrow> (string \<times> string) list \<Rightarrow> string list \<Rightarrow> event list \<times> play_outcome" where
  "play_loop current_node total_score choices_made ins =
     (if option1 current_node = None \<and> option2 current_node = None
      then (scene current_node @ [Print (nl @ ''The End!'')],
            Ended total_score choices_made ins)
      else
        (case ins of
           [] \<Rightarrow> (scene current_node @ options_menu current_node, Raised EOFError [])
         | choice # rest \<Rightarrow>
             if choice = ''1'' then
               (case option1 current_node of
                  None \<Rightarrow>
                    (scene current_node @ options_menu current_node, Raised AttributeError rest)
                | Some child \<Rightarrow>
                    (case play_loop child (total_score + option1_score current_node)
                            (choices_made @ [(option1_text current_node, story_text child)]) rest of
                       (out, r) \<Rightarrow> (scene current_node @ options_menu current_node @ out, r)))
             else if choice = ''2'' then
               (case option2 current_node of
                  None \<Rightarrow>
                    (scene current_node @ options_menu current_node, Raised AttributeError rest)
                | Some child \<Rightarrow>
                    (case play_loop child (total_score + option2_score current_node)
                            (choices_made @ [(option2_text current_node, story_text child)]) rest of
                       (out, r) \<Rightarrow> (scene current_node @ options_menu current_node @ out, r)))
             else
               (case play_loop current_node total_score choices_made rest of
                  (out, r) \<Rightarrow>
                    (scene current_node @ options_menu current_node @ invalid_choice # out, r))))"

declare play_loop.simps [simp del]

text \<open>The retry loop of lines 88 and 89, entered after a blank first answer.\<close>

fun retry_name :: "string list \<Rightarrow> event list \<times> (string \<times> string list) option" where
  "retry_name [] = ([Prompt ''Name cannot be empty. Please enter your name: ''], None)"
| "retry_name (player_name # ins) =
     (if strip player_name = []
      then (case retry_name ins of
              (out, r) \<Rightarrow> (Prompt ''Name cannot be empty. Please enter your name: '' # out, r))
      else ([Prompt ''Name cannot be empty. Please enter your name: ''],
            Some (player_name, ins)))"

definition read_name :: "string list \<Rightarrow> event list \<times> (string \<times> string list) option" where
  "read_name ins =
     (case ins of
        [] \<Rightarrow> ([Prompt ''Please enter your name: ''], None)
      | player_name # rest \<Rightarrow>
          if strip player_name = []
          then (case retry_name rest of
                  (out, r) \<Rightarrow> (Prompt ''Please enter your name: '' # out, r))
          else ([Prompt ''Please enter your name: ''], Some (player_name, rest)))"

text \<open>The journey printed by lines 130 to 133, numbered from \<open>i\<close>.\<close>

fun journey :: "nat \<Rightarrow> (string \<times> string) list \<Rightarrow> event list" where
  "journey i [] = []"
| "journey i (c # cs) =
     [Print (nl @ ''Step '' @ show_nat i @ '':''),
      Print (''You chose: '' @ fst c),
      Print (''Result: '' @ snd c)] @ journey (Suc i) cs"

definition game_over :: "string \<Rightarrow> int \<Rightarrow> (string \<times> string) list \<Rightarrow> event list" where
  "game_over player_name total_score choices_made =
     [Print (nl @ ''Game Over, '' @ player_name @ ''!''),
      Print (''Your total score: '' @ show_int total_score),
      Print (nl @ ''Your journey:'')] @ journey 1 choices_made"

definition score_entry :: "string \<Rightarrow> int \<Rightarrow> string \<Rightarrow> json" where
  "score_entry player_name total_score date =
     JDict [(''player_name'', JStr player_name), (''score'', JInt total_score),
            (''date'', JStr date)]"

text \<open>\<open>self.high_scores.append(entry)\<close>: only a list has \<open>append\<close>.\<close>

fun append_score :: "json \<Rightarrow> json \<Rightarrow> error + json" where
  "append_score (JList xs) entry = Inr (JList (xs @ [entry]))"
| "append_score _ entry = Inl AttributeError"

text \<open>
  \<open>play_game\<close>. The first argument is the text of \<open>datetime.now()\<close> in the format
  \<open>%Y-%m-%d %H:%M:%S\<close> at the end of the playthrough. The result is what was shown, the
  exception that ended the call (if any), the game and the file system afterwards, and the
  input not read.
\<close>

definition play_game ::
  "string \<Rightarrow> AdventureGame \<Rightarrow> filesystem \<Rightarrow> string list \<Rightarrow>
   event list \<times> error option \<times> AdventureGame \<times> filesystem \<times> string list" where
  "play_game now g fs ins =
     (case root g of
        None \<Rightarrow> ([Print (nl @ ''No game has been created yet!'')], None, g, fs, ins)
      | Some r \<Rightarrow>
          (case read_name ins of
             (out1, None) \<Rightarrow>
               (Print (nl @ ''Welcome to the Adventure Game!'') # out1, Some EOFError, g, fs, [])
           | (out1, Some (player_name, ins1)) \<Rightarrow>
               (case play_loop r 0 [] ins1 of
                  (out2, Raised e ins2) \<Rightarrow>
                    (Print (nl @ ''Welcome to the Adventure Game!'') # out1 @ out2,
                     Some e, g, fs, ins2)
                | (out2, Ended total_score choices_made ins2) \<Rightarrow>
                    (case append_score (high_scores g)
                            (score_entry player_name total_score now) of
                       Inl e \<Rightarrow>
                         (Print (nl @ ''Welcome to the Adventure Game!'') # out1 @ out2
                            @ game_over player_name total_score choices_made,
                          Some e, g, fs, ins2)
                     | Inr hs \<Rightarrow>
                         (case save_high_scores (g\<lparr>high_scores := hs\<rparr>) fs of
                            (out3, fs') \<Rightarrow>
                              (Print (nl @ ''Welcome to the Adventure Game!'') # out1 @ out2
                                 @ game_over player_name total_score choices_made @ out3,
                               None, g\<lparr>high_scores := hs\<rparr>, fs', ins2))))))"

section \<open>Notions the properties are stated with\<close>

text \<open>An ending: a node with both children absent.\<close>

definition is_leaf :: "Node \<Rightarrow> bool" where
  "is_leaf n = (option1 n = None \<and> option2 n = None)"

text \<open>
  A valid choice at a node: \<open>"1"\<close> or \<open>"2"\<close>, naming a child that is present. It gives the
  label of the option, its score delta and the child.
\<close>

definition choice_step :: "Node \<Rightarrow> string \<Rightarrow> (string \<times> int \<times> Node) option" where
  "choice_step n c =
     (if c = ''1''
      then map_option (\<lambda>child. (option1_text n, option1_score n, child)) (option1 n)
      else if c = ''2''
      then map_option (\<lambda>child. (option2_text n, option2_score n, child)) (option2 n)
      else None)"

text \<open>
  The steps of a sequence of valid choices that leads from a node to an ending, in order;
  \<open>None\<close> when the sequence is not such a path.
\<close>

fun path_steps :: "Node \<Rightarrow> string list \<Rightarrow> (string \<times> int \<times> Node) list option" where
  "path_steps n [] = (if is_leaf n then Some [] else None)"
| "path_steps n (c # cs) =
     (if is_leaf n then None
      else (case choice_step n c of
              None \<Rightarrow> None
            | Some step \<Rightarrow> map_option ((#) step) (path_steps (snd (snd step)) cs)))"

definition path_score :: "(string \<times> int \<times> Node) list \<Rightarrow> int" where
  "path_score steps = sum_list (map (\<lambda>step. fst (snd step)) steps)"

definition path_history :: "(string \<times> int \<times> Node) list \<Rightarrow> (string \<times> string) list" where
  "path_history steps = map (\<lambda>step. (fst step, story_text (snd (snd step)))) steps"

text \<open>What the play loop shows for a run of rejected answers at a node.\<close>

definition rejected :: "Node \<Rightarrow> string list \<Rightarrow> event list" where
  "rejected n bad = concat (map (\<lambda>c. scene n @ options_menu n @ [invalid_choice]) bad)"

text \<open>The tree invariant: every node has both children or none.\<close>

fun both_or_neither :: "Node \<Rightarrow> bool" where
  "both_or_neither (Node t c1 c2 s1 s2 n1 n2) =
     (case (n1, n2) of
        (None, None) \<Rightarrow> True
      | (Some a, Some b) \<Rightarrow> both_or_neither a \<and> both_or_neither b
      | _ \<Rightarrow> False)"

definition exactly_one_child :: "Node \<Rightarrow> bool" where
  "exactly_one_child n = ((option1 n = None) \<noteq> (option2 n = None))"

text \<open>
  A well-formed score record: exactly the fields \<open>player_name\<close> (a string), \<open>score\<close> (an
  integer) and \<open>date\<close> (a string). A well-formed score list is a list of them.
\<close>

definition well_formed_record :: "json \<Rightarrow> bool" where
  "well_formed_record e =
     (case e of
        JDict d \<Rightarrow>
          distinct (map fst d) \<and> length d = 3 \<and>
          (case (map_of d ''player_name'', map_of d ''score'', map_of d ''date'') of
             (Some (JStr n), Some (JInt s), Some (JStr t)) \<Rightarrow> True
           | _ \<Rightarrow> False)
      | _ \<Rightarrow> False)"

definition well_formed_scores :: "json \<Rightarrow> bool" where
  "well_formed_scores v = (case v of JList xs \<Rightarrow> list_all well_formed_record xs | _ \<Rightarrow> False)"

text \<open>A bare number, and a record with a numeric score field, as JSON has them.\<close>

fun is_number :: "json \<Rightarrow> bool" where
  "is_number (JInt i) = True"
| "is_number (JFloat q) = True"
| "is_number _ = False"

definition record_with_numeric_score :: "json \<Rightarrow> bool" where
  "record_with_numeric_score x =
     (case dict_get x ''score'' of None \<Rightarrow> False | Some s \<Rightarrow> is_number s)"

fun is_str :: "json \<Rightarrow> bool" where
  "is_str (JStr s) = True"
| "is_str _ = False"

text \<open>
  A record the sort can order against any other such record: its score is a number and
  its date, when present, a string. A record the table can also show: its name, when
  present, is a string.
\<close>

definition sortable :: "json \<Rightarrow> bool" where
  "sortable x =
     (case dict_get x ''score'' of
        None \<Rightarrow> False
      | Some s \<Rightarrow> num_val s \<noteq> None \<and> is_str (get_default x ''date'' (JStr [])))"

definition displayable :: "json \<Rightarrow> bool" where
  "displayable x = (sortable x \<and> is_str (get_default x ''player_name'' (JStr [])))"

text \<open>The score and the date string of a record, and the order the display is claimed to
  follow: higher score first, and among equal scores the later date string first.\<close>

definition score_of :: "json \<Rightarrow> rat" where
  "score_of x =
     (case dict_get x ''score'' of
        None \<Rightarrow> 0
      | Some s \<Rightarrow> (case num_val s of None \<Rightarrow> 0 | Some q \<Rightarrow> q))"

definition date_of :: "json \<Rightarrow> string" where
  "date_of x = (case get_default x ''date'' (JStr []) of JStr d \<Rightarrow> d | _ \<Rightarrow> [])"

definition precedes :: "json \<Rightarrow> json \<Rightarrow> bool" where
  "precedes a b =
     (score_of b < score_of a \<or> (score_of a = score_of b \<and> date_of b \<le> date_of a))"

definition sort_rank :: "json \<Rightarrow> rat \<times> string" where
  "sort_rank x = (score_of x, date_of x)"

definition keyed :: "json list \<Rightarrow> (json \<times> (json \<times> json)) list" where
  "keyed xs = map (\<lambda>x. (x, the (score_key x))) xs"

section \<open>Facts about the string functions\<close>

lemma lower_char_y: "lower_char c = CHR ''y'' \<longleftrightarrow> c = CHR ''y'' \<or> c = CHR ''Y''"
proof -
  have eq: "\<And>d. (c = d) = ((of_char c :: nat) = of_char d)" by simp
  have lt: "(of_char c :: nat) < 256" by simp
  have "(of_char (lower_char c) :: nat) = 121 \<longleftrightarrow>
          (of_char c :: nat) = 121 \<or> (of_char c :: nat) = 89"
    using lt unfolding lower_char_def less_eq_char_def
    by (auto simp: of_char_of)
  then show ?thesis
    by (simp add: eq [of "CHR ''y''"] eq [of "CHR ''Y''"]
        of_char_eq_iff [symmetric, where ?'a = nat] del: of_char_eq_iff)
qed

lemma lower_eq_y: "lower a = ''y'' \<longleftrightarrow> a = ''y'' \<or> a = ''Y''"
  by (cases a) (auto simp: lower_def lower_char_y)

lemma lower_examples:
  "lower ''y'' = ''y''" "lower ''Y'' = ''y''" "lower ''n'' \<noteq> ''y''" "lower ''yes'' \<noteq> ''y''"
  by code_simp+

lemma py_int_examples:
  "py_int ''1'' = Some 1" "py_int ''2'' = Some 2" "py_int ''5'' = Some 5"
  "py_int ''-3'' = Some (- 3)" "py_int ''x'' = None"
  by code_simp+

lemma show_int_0: "show_int 0 = ''0''"
  by code_simp

section \<open>Play engine: properties\<close>

lemma play_loop_leaf:
  "is_leaf n \<Longrightarrow> play_loop n t h ins = (scene n @ [Print (nl @ ''The End!'')], Ended t h ins)"
  by (simp add: play_loop.simps is_leaf_def)

lemma play_loop_choice1:
  "option1 n = Some child \<Longrightarrow>
   play_loop n t h (''1'' # rest) =
     (scene n @ options_menu n
        @ fst (play_loop child (t + option1_score n)
                 (h @ [(option1_text n, story_text child)]) rest),
      snd (play_loop child (t + option1_score n)
             (h @ [(option1_text n, story_text child)]) rest))"
  by (simp add: play_loop.simps [of n t h "''1'' # rest"] case_prod_beta)

lemma play_loop_choice2:
  "option2 n = Some child \<Longrightarrow>
   play_loop n t h (''2'' # rest) =
     (scene n @ options_menu n
        @ fst (play_loop child (t + option2_score n)
                 (h @ [(option2_text n, story_text child)]) rest),
      snd (play_loop child (t + option2_score n)
             (h @ [(option2_text n, story_text child)]) rest))"
  by (simp add: play_loop.simps [of n t h "''2'' # rest"] case_prod_beta)

lemma play_loop_invalid:
  "\<not> is_leaf n \<Longrightarrow> c \<noteq> ''1'' \<Longrightarrow> c \<noteq> ''2'' \<Longrightarrow>
   play_loop n t h (c # ins) =
     (scene n @ options_menu n @ invalid_choice # fst (play_loop n t h ins),
      snd (play_loop n t h ins))"
  by (auto simp add: play_loop.simps [of n t h "c # ins"] is_leaf_def case_prod_beta)

lemma play_loop_eof:
  "\<not> is_leaf n \<Longrightarrow> play_loop n t h [] = (scene n @ options_menu n, Raised EOFError [])"
  by (auto simp add: play_loop.simps [of n t h "[]"] is_leaf_def)

text \<open>The loop along a path, from any value of the two accumulators.\<close>

lemma play_loop_path:
  "path_steps n cs = Some steps \<Longrightarrow>
   snd (play_loop n t h (cs @ rest)) =
     Ended (t + path_score steps) (h @ path_history steps) rest"
proof (induction cs arbitrary: n t h steps)
  case Nil
  then show ?case
    by (simp add: play_loop_leaf path_score_def path_history_def split: if_splits)
next
  case (Cons c cs)
  from Cons.prems have inner: "\<not> is_leaf n" by (simp split: if_splits)
  from Cons.prems inner obtain step steps' where
    ch: "choice_step n c = Some step" and p: "path_steps (snd (snd step)) cs = Some steps'"
    and st: "steps = step # steps'"
    by (auto split: option.splits)
  obtain l d child where step: "step = (l, d, child)" by (cases step)
  from p step have IH:
    "\<And>t h. snd (play_loop child t h (cs @ rest)) =
       Ended (t + path_score steps') (h @ path_history steps') rest"
    using Cons.IH by simp
  show ?case
  proof (cases "c = ''1''")
    case True
    with ch step have "option1 n = Some child" "l = option1_text n" "d = option1_score n"
      by (auto simp: choice_step_def)
    with True st step IH show ?thesis
      by (simp add: play_loop_choice1 path_score_def path_history_def)
  next
    case False
    with ch have c2: "c = ''2''" by (auto simp: choice_step_def split: if_splits)
    with ch step have "option2 n = Some child" "l = option2_text n" "d = option2_score n"
      by (auto simp: choice_step_def)
    with c2 st step IH show ?thesis
      by (simp add: play_loop_choice2 path_score_def path_history_def)
  qed
qed

lemma play_loop_invalid_many:
  "\<not> is_leaf n \<Longrightarrow> \<forall>c \<in> set bad. c \<noteq> ''1'' \<and> c \<noteq> ''2'' \<Longrightarrow>
   play_loop n t h (bad @ ins) =
     (rejected n bad @ fst (play_loop n t h ins), snd (play_loop n t h ins))"
  by (induction bad) (simp_all add: rejected_def play_loop_invalid)

lemma play_game_ended:
  assumes "root g = Some r" and "strip player_name \<noteq> []" and "high_scores g = JList hs"
    and "snd (play_loop r 0 [] ins) = Ended tot hist rest"
  shows "play_game now g fs (player_name # ins) =
           (Print (nl @ ''Welcome to the Adventure Game!'') # Prompt ''Please enter your name: ''
              # fst (play_loop r 0 [] ins) @ game_over player_name tot hist
              @ fst (save_high_scores
                       (g\<lparr>high_scores := JList (hs @ [score_entry player_name tot now])\<rparr>) fs),
            None,
            g\<lparr>high_scores := JList (hs @ [score_entry player_name tot now])\<rparr>,
            snd (save_high_scores
                   (g\<lparr>high_scores := JList (hs @ [score_entry player_name tot now])\<rparr>) fs),
            rest)"
  using assms
  by (simp add: play_game_def read_name_def case_prod_beta)

text \<open>
  Claim C1. For every story tree and every sequence of valid choices \<open>"1"\<close>/\<open>"2"\<close> that leads
  from the root to an ending, the play loop ends with a total score equal to the sum of the
  score deltas chosen along that path, and with a choice history that is the list of
  (label of the chosen option, text of the child reached) along the path, in order. The
  input after the path is left unread. \<open>play_game\<close> then shows this total and history,
  appends the record with this total to the score list and saves it.
\<close>

theorem play_total_and_history:
  assumes "path_steps r cs = Some steps"
  shows "snd (play_loop r 0 [] (cs @ rest)) =
           Ended (path_score steps) (path_history steps) rest \<and>
         (root g = Some r \<and> strip player_name \<noteq> [] \<and> high_scores g = JList hs \<longrightarrow>
            play_game now g fs (player_name # cs @ rest) =
              (Print (nl @ ''Welcome to the Adventure Game!'')
                 # Prompt ''Please enter your name: ''
                 # fst (play_loop r 0 [] (cs @ rest))
                 @ game_over player_name (path_score steps) (path_history steps)
                 @ fst (save_high_scores
                     (g\<lparr>high_scores :=
                          JList (hs @ [score_entry player_name (path_score steps) now])\<rparr>) fs),
               None,
               g\<lparr>high_scores := JList (hs @ [score_entry player_name (path_score steps) now])\<rparr>,
               snd (save_high_scores
                     (g\<lparr>high_scores :=
                          JList (hs @ [score_entry player_name (path_score steps) now])\<rparr>) fs),
               rest))"
proof -
  have loop: "snd (play_loop r 0 [] (cs @ rest)) =
                Ended (path_score steps) (path_history steps) rest"
    using play_loop_path [OF assms, of 0 "[]" rest] by simp
  show ?thesis
    using loop by (auto intro: play_game_ended)
qed

theorem play_total_and_history_witness:
  "path_steps (Node ''start'' ''left'' ''right'' 5 (- 3) (Some (new_node ''L''))
       (Some (Node ''R'' ''a'' ''b'' 1 2 (Some (new_node ''RA'')) (Some (new_node ''RB'')))))
     [''2'', ''1''] =
     Some [(''right'', - 3,
            Node ''R'' ''a'' ''b'' 1 2 (Some (new_node ''RA'')) (Some (new_node ''RB''))),
           (''a'', 1, new_node ''RA'')] \<and>
   snd (play_loop (Node ''start'' ''left'' ''right'' 5 (- 3) (Some (new_node ''L''))
       (Some (Node ''R'' ''a'' ''b'' 1 2 (Some (new_node ''RA'')) (Some (new_node ''RB'')))))
     0 [] [''2'', ''1'', ''more'']) =
     Ended (- 2) [(''right'', ''R''), (''a'', ''RA'')] [''more''] \<and>
   fst (snd (snd (play_game ''2024-05-01 12:00:00''
     \<lparr>root = Some (Node ''start'' ''left'' ''right'' 5 (- 3) (Some (new_node ''L''))
         (Some (Node ''R'' ''a'' ''b'' 1 2 (Some (new_node ''RA'')) (Some (new_node ''RB''))))),
       high_scores = JList []\<rparr>
     \<lparr>score_file = Missing, write_error = None\<rparr> [''Ann'', ''2'', ''1'', ''more'']))) =
     \<lparr>root = Some (Node ''start'' ''left'' ''right'' 5 (- 3) (Some (new_node ''L''))
         (Some (Node ''R'' ''a'' ''b'' 1 2 (Some (new_node ''RA'')) (Some (new_node ''RB''))))),
       high_scores = JList [score_entry ''Ann'' (- 2) ''2024-05-01 12:00:00'']\<rparr>"
proof -
  let ?r = "Node ''start'' ''left'' ''right'' 5 (- 3) (Some (new_node ''L''))
       (Some (Node ''R'' ''a'' ''b'' 1 2 (Some (new_node ''RA'')) (Some (new_node ''RB''))))"
  have p: "path_steps ?r [''2'', ''1''] =
     Some [(''right'', - 3,
            Node ''R'' ''a'' ''b'' 1 2 (Some (new_node ''RA'')) (Some (new_node ''RB''))),
           (''a'', 1, new_node ''RA'')]"
    by (simp add: choice_step_def is_leaf_def new_node_def)
  have s: "strip ''Ann'' \<noteq> []" by (simp add: strip_def is_space_def)
  from play_total_and_history [OF p, of "[''more'']"
      "\<lparr>root = Some ?r, high_scores = JList []\<rparr>" "''Ann''" "[]" "''2024-05-01 12:00:00''"
      "\<lparr>score_file = Missing, write_error = None\<rparr>"] p s
  show ?thesis
    by (simp add: path_score_def path_history_def new_node_def)
qed

text \<open>
  Claim C7. At a node that is not an ending, an answer other than \<open>"1"\<close> and \<open>"2"\<close> is
  answered by the invalid-choice message and the loop asks again at the same node with the
  same total score and the same history; this holds for any number of such answers in a
  row, and a player who never gives a valid answer never leaves the node (the loop ends
  only with the end of the input).
\<close>

theorem invalid_choices_retried:
  assumes "\<not> is_leaf n" and "\<forall>c \<in> set bad. c \<noteq> ''1'' \<and> c \<noteq> ''2''"
  shows "play_loop n t h (bad @ ins) =
           (rejected n bad @ fst (play_loop n t h ins), snd (play_loop n t h ins)) \<and>
         play_loop n t h bad = (rejected n bad @ scene n @ options_menu n, Raised EOFError [])"
  using play_loop_invalid_many [OF assms, of t h ins] play_loop_invalid_many [OF assms, of t h "[]"]
    assms(1)
  by (simp add: play_loop_eof)

theorem invalid_choices_retried_witness:
  "\<not> is_leaf (Node ''start'' ''left'' ''right'' 5 (- 3) (Some (new_node ''L'')) (Some (new_node ''R''))) \<and>
   snd (play_loop
          (Node ''start'' ''left'' ''right'' 5 (- 3) (Some (new_node ''L'')) (Some (new_node ''R'')))
          7 [(''p'', ''q'')] [''3'', ''x'', [], ''1'']) =
     Ended 12 [(''p'', ''q''), (''left'', ''L'')] [] \<and>
   snd (play_loop
          (Node ''start'' ''left'' ''right'' 5 (- 3) (Some (new_node ''L'')) (Some (new_node ''R'')))
          7 [(''p'', ''q'')] [''3'', ''x'', []]) = Raised EOFError []"
proof -
  let ?n = "Node ''start'' ''left'' ''right'' 5 (- 3) (Some (new_node ''L'')) (Some (new_node ''R''))"
  have a: "\<not> is_leaf ?n" by (simp add: is_leaf_def)
  have b: "\<forall>c \<in> set [''3'', ''x'', []]. c \<noteq> ''1'' \<and> c \<noteq> ''2''" by simp
  have c: "snd (play_loop ?n 7 [(''p'', ''q'')] [''1'']) =
             Ended 12 [(''p'', ''q''), (''left'', ''L'')] []"
    by (simp add: play_loop_choice1 play_loop_leaf is_leaf_def new_node_def)
  from invalid_choices_retried [OF a b, of 7 "[(''p'', ''q'')]" "[''1'']"] a c
  show ?thesis by simp
qed

text \<open>
  Claim C9. Playing a tree whose root is an ending shows the root's text and stops at once,
  with total score 0 and an empty choice history, whatever input follows; \<open>play_game\<close>
  completes without an exception and appends a record with score 0 to the score list.
\<close>

theorem leaf_root_playthrough:
  assumes "root g = Some r" and "is_leaf r" and "strip player_name \<noteq> []"
    and "high_scores g = JList hs"
  shows "play_loop r 0 [] ins = (scene r @ [Print (nl @ ''The End!'')], Ended 0 [] ins) \<and>
         play_game now g fs (player_name # ins) =
           (Print (nl @ ''Welcome to the Adventure Game!'') # Prompt ''Please enter your name: ''
              # scene r @ Print (nl @ ''The End!'') # game_over player_name 0 []
              @ fst (save_high_scores
                       (g\<lparr>high_scores := JList (hs @ [score_entry player_name 0 now])\<rparr>) fs),
            None,
            g\<lparr>high_scores := JList (hs @ [score_entry player_name 0 now])\<rparr>,
            snd (save_high_scores
                   (g\<lparr>high_scores := JList (hs @ [score_entry player_name 0 now])\<rparr>) fs),
            ins)"
  using assms
  by (simp add: play_game_def read_name_def play_loop_leaf case_prod_beta)

theorem leaf_root_playthrough_witness:
  "is_leaf (new_node ''The end.'') \<and> strip ''Ann'' \<noteq> [] \<and>
   play_game ''2024-05-01 12:00:00''
     \<lparr>root = Some (new_node ''The end.''), high_scores = JList []\<rparr>
     \<lparr>score_file = Missing, write_error = None\<rparr> [''Ann'', ''1''] =
   ([Print (nl @ ''Welcome to the Adventure Game!''), Prompt ''Please enter your name: '',
     Print (nl @ replicate 50 CHR ''=''), Print ''The end.'', Print (nl @ ''The End!''),
     Print (nl @ ''Game Over, Ann!''), Print ''Your total score: 0'',
     Print (nl @ ''Your journey:'')],
    None,
    \<lparr>root = Some (new_node ''The end.''),
      high_scores = JList [JDict [(''player_name'', JStr ''Ann''), (''score'', JInt 0),
                                   (''date'', JStr ''2024-05-01 12:00:00'')]]\<rparr>,
    \<lparr>score_file = Document (JList [JDict [(''player_name'', JStr ''Ann''), (''score'', JInt 0),
                                   (''date'', JStr ''2024-05-01 12:00:00'')]]),
      write_error = None\<rparr>,
    [''1''])"
proof -
  have s: "strip ''Ann'' \<noteq> []" by (simp add: strip_def is_space_def)
  have l: "is_leaf (new_node ''The end.'')" by (simp add: is_leaf_def new_node_def)
  show ?thesis
    using s l leaf_root_playthrough [of
        "\<lparr>root = Some (new_node ''The end.''), high_scores = JList []\<rparr>"
        "new_node ''The end.''" "''Ann''" "[]" "[''1'']" "''2024-05-01 12:00:00''"
        "\<lparr>score_file = Missing, write_error = None\<rparr>", OF _ l s]
    by (simp add: save_high_scores_def score_entry_def game_over_def scene_def new_node_def
        show_int_0)
qed

section \<open>Authoring engine: properties\<close>

lemma both_or_neither_new_node: "both_or_neither (new_node t)"
  by (simp add: new_node_def)

lemma both_or_neither_children:
  "both_or_neither n \<longleftrightarrow>
     (case (option1 n, option2 n) of
        (None, None) \<Rightarrow> True
      | (Some a, Some b) \<Rightarrow> both_or_neither a \<and> both_or_neither b
      | _ \<Rightarrow> False)"
  by (cases n) simp

lemma read_options_Inr_children:
  "read_options n ins = Inr (n', rest) \<Longrightarrow>
   \<exists>r1 r2. option1 n' = Some (new_node r1) \<and> option2 n' = Some (new_node r2)"
  by (cases n) (auto split: list.splits option.splits)

lemma create_node_Some:
  "create_node (Some n) ins = (e, c, rest) \<Longrightarrow> \<exists>n'. c = Some n'"
  by (cases ins) (auto split: if_splits sum.splits prod.splits option.splits)

text \<open>
  A call of \<open>_create_node\<close> that returns normally leaves a node of the invariant, when it was
  given one; by induction along the recursion of the function.
\<close>

lemma create_node_both_or_neither:
  "create_node c ins = (None, c', rest) \<Longrightarrow>
   (\<forall>n. c = Some n \<longrightarrow> both_or_neither n) \<Longrightarrow>
   (\<forall>n'. c' = Some n' \<longrightarrow> both_or_neither n')"
proof (induction c ins arbitrary: c' rest rule: create_node.induct)
  case (1 ins)
  then show ?case by simp
next
  case (2 n)
  then show ?case by simp
next
  case (3 n a ins)
  show ?case
  proof (cases "lower a = ''y''")
    case True
    with "3.prems" show ?thesis by simp
  next
    case no: False
    show ?thesis
    proof (cases "read_options n ins")
      case (Inl f)
      with no "3.prems" show ?thesis by (simp split: prod.splits)
    next
      case (Inr p)
      obtain m r0 where p: "p = (m, r0)" by (cases p)
      from Inr p obtain t1 t2 where
        ch: "option1 m = Some (new_node t1)" "option2 m = Some (new_node t2)"
        by (auto dest: read_options_Inr_children)
      obtain e1 child1 rest1 where r1: "create_node (option1 m) r0 = (e1, child1, rest1)"
        by (cases "create_node (option1 m) r0")
      show ?thesis
      proof (cases e1)
        case (Some e)
        with no Inr p r1 "3.prems" show ?thesis by simp
      next
        case e1: None
        obtain e2 child2 rest2 where r2: "create_node (option2 m) rest1 = (e2, child2, rest2)"
          by (cases "create_node (option2 m) rest1")
        from no Inr p r1 e1 r2 "3.prems"(1)
        have res: "e2 = None" "c' = Some (set_option2 (set_option1 m child1) child2)"
          by simp_all
        from r1 ch obtain k1 where k1: "child1 = Some k1" by (auto dest: create_node_Some)
        from r2 ch obtain k2 where k2: "child2 = Some k2" by (auto dest: create_node_Some)
        have b1: "both_or_neither k1"
          using "3.IH"(1) [OF no Inr p [symmetric], of child1 rest1] r1 e1 ch k1
          by (simp add: both_or_neither_new_node)
        have b2: "both_or_neither k2"
          using "3.IH"(2) [OF no Inr p [symmetric] r1 [symmetric] e1 refl, of child2 rest2]
            r2 res(1) ch k2
          by (simp add: both_or_neither_new_node)
        from res k1 k2 b1 b2 show ?thesis
          by (simp add: both_or_neither_children
                [of "set_option2 (set_option1 m (Some k1)) (Some k2)"]
              set_option1_def set_option2_def)
      qed
    qed
  qed
qed

text \<open>
  Claim C2, as the code has it. Every tree left by an authoring session that returns
  normally has, at every node, both children or none. (A session that fails while option 2
  of a node is being read leaves that node with option 1 present and option 2 absent; see
  the counterexample.)
\<close>

theorem completed_authoring_two_or_none:
  assumes "create_game g ins = (None, g', rest)"
  shows "\<exists>r. root g' = Some r \<and> both_or_neither r"
proof -
  from assms obtain t ins' where ins: "ins = t # ins'" by (cases ins) auto
  obtain c where c: "create_node (Some (new_node t)) ins' = (None, c, rest)"
    and g': "g' = g\<lparr>root := c\<rparr>"
    using assms ins by (auto split: prod.splits)
  from c obtain r where r: "c = Some r" by (auto dest: create_node_Some)
  from create_node_both_or_neither [OF c] r have "both_or_neither r"
    by (simp add: both_or_neither_new_node)
  with g' r show ?thesis by simp
qed

theorem completed_authoring_two_or_none_witness:
  "create_game \<lparr>root = None, high_scores = JList []\<rparr>
     [''start'', ''n'', ''left'', ''5'', ''L'', ''right'', ''-3'', ''R'', ''y'', ''Y''] =
     (None,
      \<lparr>root = Some (Node ''start'' ''left'' ''right'' 5 (- 3)
                      (Some (new_node ''L'')) (Some (new_node ''R''))),
        high_scores = JList []\<rparr>, []) \<and>
   both_or_neither
     (Node ''start'' ''left'' ''right'' 5 (- 3) (Some (new_node ''L'')) (Some (new_node ''R'')))"
proof -
  have run: "create_game \<lparr>root = None, high_scores = JList []\<rparr>
     [''start'', ''n'', ''left'', ''5'', ''L'', ''right'', ''-3'', ''R'', ''y'', ''Y''] =
     (None,
      \<lparr>root = Some (Node ''start'' ''left'' ''right'' 5 (- 3)
                      (Some (new_node ''L'')) (Some (new_node ''R''))),
        high_scores = JList []\<rparr>, [])"
    by (simp add: lower_examples py_int_examples new_node_def set_option1_def set_option2_def)
  from completed_authoring_two_or_none [OF run] run show ?thesis by simp
qed

text \<open>
  The claim as stated fails: a score for option 2 that is not an integer ends the session
  with \<open>ValueError\<close> after option 1 has been attached to the root and before option 2 is.
\<close>

theorem failed_authoring_one_child_counterexample:
  "create_game \<lparr>root = None, high_scores = JList []\<rparr>
     [''start'', ''n'', ''left'', ''5'', ''L'', ''right'', ''x''] =
     (Some ValueError,
      \<lparr>root = Some (Node ''start'' ''left'' ''right'' 5 0 (Some (new_node ''L'')) None),
        high_scores = JList []\<rparr>, []) \<and>
   \<not> both_or_neither (Node ''start'' ''left'' ''right'' 5 0 (Some (new_node ''L'')) None) \<and>
   exactly_one_child (Node ''start'' ''left'' ''right'' 5 0 (Some (new_node ''L'')) None)"
  by (simp add: lower_examples py_int_examples new_node_def exactly_one_child_def)

text \<open>
  Claim C8, as the code has it. At the question whether the node is an ending, an answer
  that is \<open>y\<close> up to case (\<open>"y"\<close> or \<open>"Y"\<close>, and nothing else) ends the call at once and leaves
  the node as it was, so a new node stays without children. Any other answer goes on to
  read the two options: either reading them fails, and the call ends with that failure,
  or the node ends up with both children present.
\<close>

theorem ending_answer:
  "(lower a = ''y'' \<longleftrightarrow> a = ''y'' \<or> a = ''Y'') \<and>
   (lower a = ''y'' \<longrightarrow> create_node (Some n) (a # ins) = (None, Some n, ins)) \<and>
   (lower a \<noteq> ''y'' \<longrightarrow>
      (case read_options n ins of
         Inl (e, n', rest) \<Rightarrow> create_node (Some n) (a # ins) = (Some e, Some n', rest)
       | Inr (n', rest) \<Rightarrow>
           (\<exists>e m rest'. create_node (Some n) (a # ins) = (e, Some m, rest') \<and>
              option1 m \<noteq> None \<and> option2 m \<noteq> None)))"
proof (intro conjI impI)
  show "lower a = ''y'' \<longleftrightarrow> a = ''y'' \<or> a = ''Y''" by (rule lower_eq_y)
next
  assume "lower a = ''y''"
  then show "create_node (Some n) (a # ins) = (None, Some n, ins)" by simp
next
  assume no: "lower a \<noteq> ''y''"
  show "case read_options n ins of
          Inl (e, n', rest) \<Rightarrow> create_node (Some n) (a # ins) = (Some e, Some n', rest)
        | Inr (n', rest) \<Rightarrow>
            (\<exists>e m rest'. create_node (Some n) (a # ins) = (e, Some m, rest') \<and>
               option1 m \<noteq> None \<and> option2 m \<noteq> None)"
  proof (cases "read_options n ins")
    case (Inl f)
    with no show ?thesis by (simp split: prod.splits)
  next
    case (Inr p)
    obtain m r0 where p: "p = (m, r0)" by (cases p)
    from Inr p obtain t1 t2 where
      ch: "option1 m = Some (new_node t1)" "option2 m = Some (new_node t2)"
      by (auto dest: read_options_Inr_children)
    obtain e1 child1 rest1 where r1: "create_node (option1 m) r0 = (e1, child1, rest1)"
      by (cases "create_node (option1 m) r0")
    obtain e2 child2 rest2 where r2: "create_node (option2 m) rest1 = (e2, child2, rest2)"
      by (cases "create_node (option2 m) rest1")
    from r1 ch obtain k1 where k1: "child1 = Some k1" by (auto dest: create_node_Some)
    from r2 ch obtain k2 where k2: "child2 = Some k2" by (auto dest: create_node_Some)
    from no Inr p r1 r2 k1 k2 ch show ?thesis
      by (cases e1) (simp_all add: set_option1_def set_option2_def)
  qed
qed

theorem ending_answer_witness:
  "create_node (Some (new_node ''r'')) [''Y'', ''next''] =
     (None, Some (new_node ''r''), [''next'']) \<and>
   create_node (Some (new_node ''r'')) [''n'', ''a'', ''x''] =
     (Some ValueError, Some (Node ''r'' ''a'' [] 0 0 None None), []) \<and>
   (\<exists>e m rest'.
      create_node (Some (new_node ''r''))
        [''n'', ''a'', ''1'', ''x'', ''b'', ''2'', ''z'', ''y'', ''y''] = (e, Some m, rest') \<and>
      option1 m \<noteq> None \<and> option2 m \<noteq> None)"
proof -
  have r1: "read_options (new_node ''r'') [''a'', ''x''] =
              Inl (ValueError, Node ''r'' ''a'' [] 0 0 None None, [])"
    by (simp add: new_node_def py_int_examples)
  have r2: "read_options (new_node ''r'') [''a'', ''1'', ''x'', ''b'', ''2'', ''z'', ''y'', ''y''] =
              Inr (Node ''r'' ''a'' ''b'' 1 2 (Some (new_node ''x'')) (Some (new_node ''z'')),
                   [''y'', ''y''])"
    by (simp add: new_node_def py_int_examples)
  from ending_answer [of "''Y''" "new_node ''r''" "[''next'']"]
  have a: "create_node (Some (new_node ''r'')) [''Y'', ''next''] =
     (None, Some (new_node ''r''), [''next''])"
    by (simp add: lower_examples)
  from ending_answer [of "''n''" "new_node ''r''" "[''a'', ''x'']"]
  have b: "create_node (Some (new_node ''r'')) [''n'', ''a'', ''x''] =
     (Some ValueError, Some (Node ''r'' ''a'' [] 0 0 None None), [])"
    by (simp add: lower_examples r1)
  from ending_answer [of "''n''" "new_node ''r''"
      "[''a'', ''1'', ''x'', ''b'', ''2'', ''z'', ''y'', ''y'']"]
  have c: "\<exists>e m rest'.
      create_node (Some (new_node ''r''))
        [''n'', ''a'', ''1'', ''x'', ''b'', ''2'', ''z'', ''y'', ''y''] = (e, Some m, rest') \<and>
      option1 m \<noteq> None \<and> option2 m \<noteq> None"
    by (simp add: lower_examples r2)
  from a b c show ?thesis by blast
qed

text \<open>
  The claim as stated fails for the word \<open>yes\<close>: the answer \<open>"yes"\<close> does not end the node,
  the call goes on to read both options and the node gets two children.
\<close>

theorem yes_word_counterexample:
  "create_node (Some (new_node ''r''))
     [''yes'', ''a'', ''1'', ''x'', ''b'', ''2'', ''z'', ''y'', ''y''] =
     (None, Some (Node ''r'' ''a'' ''b'' 1 2 (Some (new_node ''x'')) (Some (new_node ''z''))), [])"
  by (simp add: lower_examples py_int_examples new_node_def set_option1_def set_option2_def)

section \<open>Score store: properties\<close>

text \<open>
  Claim C4, as the code has it. \<open>load_high_scores\<close> never raises. A missing file gives the
  empty list and no message. A file that cannot be read, or whose text is not JSON, gives
  the empty list and one diagnostic line. A file whose text is JSON is taken as it is: the
  decoded value becomes the score list, whatever its structure, with no message.
\<close>

theorem load_outcomes:
  "(score_file fs = Missing \<longrightarrow>
      load_high_scores g fs = ([], g\<lparr>high_scores := JList []\<rparr>)) \<and>
   (score_file fs = Invalid_json \<longrightarrow>
      load_high_scores g fs =
        ([Print (nl @ ''Error loading high scores file. Starting with empty scores.'')],
         g\<lparr>high_scores := JList []\<rparr>)) \<and>
   (\<forall>msg. score_file fs = Unreadable msg \<longrightarrow>
      load_high_scores g fs =
        ([Print (nl @ ''Error loading high scores: '' @ msg)], g\<lparr>high_scores := JList []\<rparr>)) \<and>
   (\<forall>v. score_file fs = Document v \<longrightarrow>
      load_high_scores g fs = ([], g\<lparr>high_scores := v\<rparr>))"
  by (simp add: load_high_scores_def)

theorem load_outcomes_witness:
  "load_high_scores \<lparr>root = None, high_scores = JList [JInt 1]\<rparr>
      \<lparr>score_file = Missing, write_error = None\<rparr> =
        ([], \<lparr>root = None, high_scores = JList []\<rparr>) \<and>
   load_high_scores \<lparr>root = None, high_scores = JList [JInt 1]\<rparr>
      \<lparr>score_file = Invalid_json, write_error = None\<rparr> =
        ([Print (nl @ ''Error loading high scores file. Starting with empty scores.'')],
         \<lparr>root = None, high_scores = JList []\<rparr>) \<and>
   load_high_scores \<lparr>root = None, high_scores = JList [JInt 1]\<rparr>
      \<lparr>score_file = Unreadable ''Permission denied'', write_error = None\<rparr> =
        ([Print (nl @ ''Error loading high scores: Permission denied'')],
         \<lparr>root = None, high_scores = JList []\<rparr>) \<and>
   load_high_scores \<lparr>root = None, high_scores = JList [JInt 1]\<rparr>
      \<lparr>score_file = Document (JList [JInt 2]), write_error = None\<rparr> =
        ([], \<lparr>root = None, high_scores = JList [JInt 2]\<rparr>)"
  using load_outcomes [of "\<lparr>score_file = Missing, write_error = None\<rparr>"
          "\<lparr>root = None, high_scores = JList [JInt 1]\<rparr>"]
        load_outcomes [of "\<lparr>score_file = Invalid_json, write_error = None\<rparr>"
          "\<lparr>root = None, high_scores = JList [JInt 1]\<rparr>"]
        load_outcomes [of "\<lparr>score_file = Unreadable ''Permission denied'', write_error = None\<rparr>"
          "\<lparr>root = None, high_scores = JList [JInt 1]\<rparr>"]
        load_outcomes [of "\<lparr>score_file = Document (JList [JInt 2]), write_error = None\<rparr>"
          "\<lparr>root = None, high_scores = JList [JInt 1]\<rparr>"]
  by simp

text \<open>
  The claim as stated fails: the file \<open>{"a": 1}\<close> is JSON but not a list of score records;
  it is loaded as the score list, which is then a dictionary, and nothing is reported.
\<close>

theorem load_wrong_structure_counterexample:
  "\<not> well_formed_scores (JDict [(''a'', JInt 1)]) \<and>
   load_high_scores \<lparr>root = None, high_scores = JList []\<rparr>
     \<lparr>score_file = Document (JDict [(''a'', JInt 1)]), write_error = None\<rparr> =
   ([], \<lparr>root = None, high_scores = JDict [(''a'', JInt 1)]\<rparr>)"
  by (simp add: well_formed_scores_def load_high_scores_def)

text \<open>
  Claim C5. For a well-formed score list, when the file can be written, \<open>save_high_scores\<close>
  reports nothing and a \<open>load_high_scores\<close> that follows returns the same list, into
  whatever game object it is loaded.
\<close>

theorem save_load_round_trip:
  assumes "high_scores g = v" and "well_formed_scores v" and "write_error fs = None"
  shows "fst (save_high_scores g fs) = [] \<and>
         load_high_scores g' (snd (save_high_scores g fs)) = ([], g'\<lparr>high_scores := v\<rparr>)"
  using assms by (simp add: save_high_scores_def load_high_scores_def)

theorem save_load_round_trip_witness:
  "well_formed_scores (JList [score_entry ''Ann'' 7 ''2024-05-01 12:00:00'']) \<and>
   load_high_scores \<lparr>root = None, high_scores = JList []\<rparr>
     (snd (save_high_scores
        \<lparr>root = None, high_scores = JList [score_entry ''Ann'' 7 ''2024-05-01 12:00:00'']\<rparr>
        \<lparr>score_file = Unreadable ''locked'', write_error = None\<rparr>)) =
   ([], \<lparr>root = None, high_scores = JList [score_entry ''Ann'' 7 ''2024-05-01 12:00:00'']\<rparr>)"
proof -
  have w: "well_formed_scores (JList [score_entry ''Ann'' 7 ''2024-05-01 12:00:00''])"
    by (simp add: well_formed_scores_def well_formed_record_def score_entry_def)
  show ?thesis
    using w save_load_round_trip [of
        "\<lparr>root = None, high_scores = JList [score_entry ''Ann'' 7 ''2024-05-01 12:00:00'']\<rparr>"
        "JList [score_entry ''Ann'' 7 ''2024-05-01 12:00:00'']"
        "\<lparr>score_file = Unreadable ''locked'', write_error = None\<rparr>"
        "\<lparr>root = None, high_scores = JList []\<rparr>", OF _ w]
    by simp
qed

text \<open>
  Claim C10. With an empty score list, \<open>show_high_scores\<close> prints the one line that no
  scores are recorded and returns: the game object and the file system, the score file
  included, are as before.
\<close>

theorem empty_scores_display:
  assumes "high_scores g = JList []"
  shows "show_high_scores g fs = ([Print (nl @ ''No scores recorded yet!'')], g, fs)"
  using assms by (simp add: show_high_scores_def)

theorem empty_scores_display_witness:
  "show_high_scores \<lparr>root = None, high_scores = JList []\<rparr>
     \<lparr>score_file = Document (JList [JInt 42]), write_error = None\<rparr> =
   ([Print (nl @ ''No scores recorded yet!'')], \<lparr>root = None, high_scores = JList []\<rparr>,
    \<lparr>score_file = Document (JList [JInt 42]), write_error = None\<rparr>)"
  using empty_scores_display [of "\<lparr>root = None, high_scores = JList []\<rparr>"
      "\<lparr>score_file = Document (JList [JInt 42]), write_error = None\<rparr>"]
  by simp

subsection \<open>The sort of the display\<close>

lemma py_eq_num: "num_val a = Some p \<Longrightarrow> num_val b = Some q \<Longrightarrow> py_eq a b = (p = q)"
  by (cases a; cases b) (auto split: if_splits)

lemma py_lt_num: "num_val a = Some p \<Longrightarrow> num_val b = Some q \<Longrightarrow> py_lt a b = Some (p < q)"
  by (cases a; cases b) (auto split: if_splits)

lemma score_key_sortable:
  "sortable x \<Longrightarrow>
   score_key x = Some (the (dict_get x ''score''), JStr (date_of x)) \<and>
   num_val (the (dict_get x ''score'')) = Some (score_of x)"
  by (auto simp: sortable_def score_key_def score_of_def date_of_def
      split: option.splits json.splits elim: is_str.elims)

lemma score_key_Some: "sortable x \<Longrightarrow> \<exists>a b. score_key x = Some (a, b)"
  using score_key_sortable [of x] by simp

text \<open>On sortable records Python's comparison of the keys is the lexicographic order of
  score and date string.\<close>

lemma key_lt_sortable:
  "sortable x \<Longrightarrow> sortable y \<Longrightarrow>
   key_lt (the (score_key x)) (the (score_key y)) = Some (sort_rank x < sort_rank y)"
  using score_key_sortable [of x] score_key_sortable [of y]
  by (auto simp: key_lt_def sort_rank_def py_eq_num py_lt_num less_prod_def)

lemma insert_desc_mset: "mset (insert_desc x ys) = add_mset x (mset ys)"
  by (induction ys) auto

lemma insert_desc_set: "set (insert_desc x ys) = insert x (set ys)"
  by (induction ys) auto

lemma insert_desc_sorted:
  assumes "sortable x" and "\<forall>y \<in> set ys. sortable y"
    and "sorted_wrt (\<lambda>a b. sort_rank b \<le> sort_rank a) ys"
  shows "sorted_wrt (\<lambda>a b. sort_rank b \<le> sort_rank a)
           (map fst (insert_desc (x, the (score_key x)) (keyed ys)))"
  using assms
proof (induction ys)
  case Nil
  then show ?case by (simp add: keyed_def)
next
  case (Cons y ys)
  have set_eq: "set (map fst (insert_desc (x, the (score_key x)) (keyed ys))) = insert x (set ys)"
    by (simp add: insert_desc_set keyed_def image_image)
  show ?case
  proof (cases "sort_rank x < sort_rank y")
    case True
    with Cons show ?thesis
      using set_eq by (auto simp: keyed_def key_lt_sortable)
  next
    case False
    then have le: "sort_rank y \<le> sort_rank x" by simp
    from Cons.prems have "\<forall>z \<in> set ys. sort_rank z \<le> sort_rank y" by simp
    with le have "\<forall>z \<in> set ys. sort_rank z \<le> sort_rank x" by (meson order_trans)
    moreover have "map fst (keyed ys) = ys" by (simp add: keyed_def comp_def)
    ultimately show ?thesis
      using False le Cons.prems by (simp add: keyed_def key_lt_sortable comp_def)
  qed
qed

lemma keyed_map_fst:
  "\<forall>p \<in> set l. snd p = the (score_key (fst p)) \<Longrightarrow> keyed (map fst l) = l"
  by (induction l) (auto simp: keyed_def)

lemma foldr_insert_keyed:
  "\<forall>p \<in> set (foldr insert_desc (keyed xs) []). snd p = the (score_key (fst p))"
  by (induction xs) (auto simp: keyed_def insert_desc_set)

lemma sort_desc_mset: "mset (map fst (foldr insert_desc (keyed xs) [])) = mset xs"
proof -
  have "mset (foldr insert_desc l []) = mset l" for l :: "(json \<times> (json \<times> json)) list"
    by (induction l) (simp_all add: insert_desc_mset)
  then have "mset (map fst (foldr insert_desc (keyed xs) [])) = mset (map fst (keyed xs))"
    by (metis mset_map)
  then show ?thesis by (simp add: keyed_def comp_def)
qed

lemma sort_desc_sorted:
  "\<forall>x \<in> set xs. sortable x \<Longrightarrow>
   sorted_wrt (\<lambda>a b. sort_rank b \<le> sort_rank a) (map fst (foldr insert_desc (keyed xs) []))"
proof (induction xs)
  case Nil
  then show ?case by (simp add: keyed_def)
next
  case (Cons x xs)
  let ?l = "foldr insert_desc (keyed xs) []"
  have k: "keyed (map fst ?l) = ?l" by (rule keyed_map_fst) (rule foldr_insert_keyed)
  have "set (map fst ?l) = set xs" using sort_desc_mset [of xs] by (metis set_mset_mset)
  with Cons.prems have d: "\<forall>y \<in> set (map fst ?l). sortable y" by simp
  from Cons have s: "sorted_wrt (\<lambda>a b. sort_rank b \<le> sort_rank a) (map fst ?l)" by simp
  from Cons.prems have "sortable x" by simp
  from insert_desc_sorted [OF this d s] k show ?case by (simp add: keyed_def)
qed

lemma all_comparable_sortable:
  "\<forall>x \<in> set xs. sortable x \<Longrightarrow> all_comparable (map snd (keyed xs))"
  by (induction xs) (auto simp: keyed_def key_lt_sortable)

lemma sorted_scores_sortable:
  assumes "\<forall>x \<in> set xs. sortable x"
  shows "sorted_scores xs = Inr (map fst (foldr insert_desc (keyed xs) []))"
proof -
  from assms have "list_all (\<lambda>x. score_key x \<noteq> None) xs"
    using score_key_Some by (simp add: list_all_iff)
  moreover have "all_comparable (map snd (map (\<lambda>x. (x, the (score_key x))) xs))"
    using all_comparable_sortable [OF assms] by (simp add: keyed_def)
  ultimately show ?thesis
    by (simp add: sorted_scores_def keyed_def Let_def del: map_map)
qed

lemma precedes_rank: "precedes a b = (sort_rank b \<le> sort_rank a)"
  by (auto simp: precedes_def sort_rank_def less_eq_prod_def)

lemma formattable_num: "num_val s = Some q \<Longrightarrow> formattable s"
  by (cases s) auto

lemma table_row_displayable:
  "displayable x \<Longrightarrow> \<exists>ev. table_row x = Inr ev"
  by (auto simp: displayable_def sortable_def table_row_def get_default_def formattable_num
      split: option.splits json.splits elim!: is_str.elims)

lemma print_rows_displayable:
  "\<forall>x \<in> set xs. displayable x \<Longrightarrow> snd (print_rows xs) = None"
  by (induction xs) (auto dest!: table_row_displayable split: prod.splits)

text \<open>When no row raises, the rows shown are those of the entries, in the order of the list.\<close>

lemma print_rows_rows:
  "snd (print_rows xs) = None \<Longrightarrow> map table_row xs = map Inr (fst (print_rows xs))"
  by (induction xs) (auto split: sum.splits prod.splits)

lemma show_high_scores_displayable:
  assumes hs: "high_scores g = JList xs" and ne: "xs \<noteq> []"
    and d: "\<forall>x \<in> set (valid_scores xs). displayable x" and w: "write_error fs = None"
  shows "show_high_scores g fs =
           (Print (nl @ ''High Scores:'') # table_header
              @ fst (print_rows (map fst (foldr insert_desc (keyed (valid_scores xs)) []))),
            g\<lparr>high_scores := JList (valid_scores xs)\<rparr>,
            fs\<lparr>score_file := Document (JList (valid_scores xs))\<rparr>) \<and>
         sorted_scores (valid_scores xs) =
           Inr (map fst (foldr insert_desc (keyed (valid_scores xs)) [])) \<and>
         snd (print_rows (map fst (foldr insert_desc (keyed (valid_scores xs)) []))) = None"
proof -
  let ?s = "map fst (foldr insert_desc (keyed (valid_scores xs)) [])"
  from d have sd: "\<forall>x \<in> set (valid_scores xs). sortable x" by (simp add: displayable_def)
  have so: "sorted_scores (valid_scores xs) = Inr ?s"
    by (rule sorted_scores_sortable [OF sd])
  have "set ?s = set (valid_scores xs)"
    using sort_desc_mset [of "valid_scores xs"] by (metis set_mset_mset)
  with d have n: "snd (print_rows ?s) = None" by (simp add: print_rows_displayable)
  then have pr: "print_rows ?s = (fst (print_rows ?s), None)" by (metis prod.collapse)
  have "show_body g fs =
          (Print (nl @ ''High Scores:'') # table_header @ fst (print_rows ?s),
           Inr (g\<lparr>high_scores := JList (valid_scores xs)\<rparr>,
                fs\<lparr>score_file := Document (JList (valid_scores xs))\<rparr>))"
    using hs so w by (simp add: show_body_def save_high_scores_def Let_def n case_prod_beta
        split: option.splits)
  with hs ne so n show ?thesis
    by (simp add: show_high_scores_def)
qed

text \<open>
  Claim C6. For a list of records with a numeric score and a string (or no) date, the list
  the display is printed from is a rearrangement of the records in which every record
  precedes the records of lower score and, among records of equal score, those whose date
  string is lexicographically smaller or equal. When the list is the normalized score list
  and the names are strings too, the rows \<open>show_high_scores\<close> prints after the table header
  are the rows of that list, in that order.
\<close>

theorem display_order:
  assumes "\<forall>x \<in> set xs. sortable x"
  shows "\<exists>ys. sorted_scores xs = Inr ys \<and> mset ys = mset xs \<and> sorted_wrt precedes ys \<and>
           (high_scores g = JList hs \<and> hs \<noteq> [] \<and> valid_scores hs = xs \<and>
            (\<forall>x \<in> set xs. displayable x) \<and> write_error fs = None \<longrightarrow>
              (\<exists>rows. map table_row ys = map Inr rows \<and>
                 fst (show_high_scores g fs) =
                   Print (nl @ ''High Scores:'') # table_header @ rows))"
proof -
  let ?ys = "map fst (foldr insert_desc (keyed xs) [])"
  have "sorted_wrt precedes ?ys"
    using sort_desc_sorted [OF assms] by (simp add: precedes_rank [abs_def])
  moreover have "\<exists>rows. map table_row ?ys = map Inr rows \<and>
         fst (show_high_scores g fs) = Print (nl @ ''High Scores:'') # table_header @ rows"
    if a: "high_scores g = JList hs \<and> hs \<noteq> [] \<and> valid_scores hs = xs \<and>
            (\<forall>x \<in> set xs. displayable x) \<and> write_error fs = None"
  proof -
    from a show_high_scores_displayable [of g hs fs]
    have "fst (show_high_scores g fs) =
            Print (nl @ ''High Scores:'') # table_header @ fst (print_rows ?ys)"
      and "snd (print_rows ?ys) = None"
      by simp_all
    with print_rows_rows [of ?ys] show ?thesis by blast
  qed
  ultimately show ?thesis
    using sorted_scores_sortable [OF assms] sort_desc_mset [of xs] by blast
qed

theorem display_order_witness:
  "sortable (score_entry ''A'' 10 ''2024-01-01 09:00:00'') \<and>
   sortable (score_entry ''B'' 30 ''2024-01-15 09:00:00'') \<and>
   sortable (score_entry ''C'' 30 ''2024-02-01 09:00:00'') \<and>
   sorted_scores [score_entry ''A'' 10 ''2024-01-01 09:00:00'',
                  score_entry ''B'' 30 ''2024-01-15 09:00:00'',
                  score_entry ''C'' 30 ''2024-02-01 09:00:00''] =
     Inr [score_entry ''C'' 30 ''2024-02-01 09:00:00'',
          score_entry ''B'' 30 ''2024-01-15 09:00:00'',
          score_entry ''A'' 10 ''2024-01-01 09:00:00''] \<and>
   sorted_wrt precedes [score_entry ''C'' 30 ''2024-02-01 09:00:00'',
          score_entry ''B'' 30 ''2024-01-15 09:00:00'',
          score_entry ''A'' 10 ''2024-01-01 09:00:00''] \<and>
   fst (show_high_scores
          \<lparr>root = None,
            high_scores = JList [score_entry ''A'' 10 ''2024-01-01 09:00:00'',
                                 score_entry ''B'' 30 ''2024-01-15 09:00:00'',
                                 score_entry ''C'' 30 ''2024-02-01 09:00:00'']\<rparr>
          \<lparr>score_file = Missing, write_error = None\<rparr>) =
     Print (nl @ ''High Scores:'') # table_header @
       [Row ''C'' (JInt 30) (JStr ''2024-02-01 09:00:00''),
        Row ''B'' (JInt 30) (JStr ''2024-01-15 09:00:00''),
        Row ''A'' (JInt 10) (JStr ''2024-01-01 09:00:00'')]"
proof -
  let ?a = "score_entry ''A'' 10 ''2024-01-01 09:00:00''"
  let ?b = "score_entry ''B'' 30 ''2024-01-15 09:00:00''"
  let ?c = "score_entry ''C'' 30 ''2024-02-01 09:00:00''"
  let ?g = "\<lparr>root = None, high_scores = JList [?a, ?b, ?c]\<rparr>"
  let ?fs = "\<lparr>score_file = Missing, write_error = None\<rparr>"
  have so: "\<forall>x \<in> set [?a, ?b, ?c]. sortable x"
    by (simp add: sortable_def score_entry_def get_default_def)
  have di: "\<forall>x \<in> set [?a, ?b, ?c]. displayable x"
    by (simp add: displayable_def sortable_def score_entry_def get_default_def)
  have va: "valid_scores [?a, ?b, ?c] = [?a, ?b, ?c]"
    by (simp add: valid_scores_def score_entry_def)
  have s: "sorted_scores [?a, ?b, ?c] = Inr [?c, ?b, ?a]"
    by code_simp
  have rows: "map table_row [?c, ?b, ?a] =
      map Inr [Row ''C'' (JInt 30) (JStr ''2024-02-01 09:00:00''),
               Row ''B'' (JInt 30) (JStr ''2024-01-15 09:00:00''),
               Row ''A'' (JInt 10) (JStr ''2024-01-01 09:00:00'')]"
    by (simp add: table_row_def score_entry_def get_default_def)
  from display_order [OF so, of ?g "[?a, ?b, ?c]" ?fs]
  obtain ys where ys: "sorted_scores [?a, ?b, ?c] = Inr ys" and sw: "sorted_wrt precedes ys"
    and imp: "high_scores ?g = JList [?a, ?b, ?c] \<and> [?a, ?b, ?c] \<noteq> [] \<and>
        valid_scores [?a, ?b, ?c] = [?a, ?b, ?c] \<and>
        (\<forall>x \<in> set [?a, ?b, ?c]. displayable x) \<and> write_error ?fs = None \<longrightarrow>
        (\<exists>rows. map table_row ys = map Inr rows \<and>
           fst (show_high_scores ?g ?fs) =
             Print (nl @ ''High Scores:'') # table_header @ rows)"
    by blast
  from ys s have ys_eq: "ys = [?c, ?b, ?a]" by simp
  from imp va di obtain rs where m: "map table_row ys = map Inr rs"
    and out: "fst (show_high_scores ?g ?fs) = Print (nl @ ''High Scores:'') # table_header @ rs"
    by auto
  from m rows ys_eq have "rs = [Row ''C'' (JInt 30) (JStr ''2024-02-01 09:00:00''),
               Row ''B'' (JInt 30) (JStr ''2024-01-15 09:00:00''),
               Row ''A'' (JInt 10) (JStr ''2024-01-01 09:00:00'')]"
    by (metis inj_Inr inj_map_eq_map)
  with out sw ys_eq so s show ?thesis by simp
qed

subsection \<open>Normalization and its persistence\<close>

text \<open>
  Claim C3, as the code has it. The display normalizes the entries of the score list in
  order: an entry that is a number (\<open>int\<close>, \<open>float\<close>, and also \<open>bool\<close>) becomes the record with
  player name \<open>Unknown\<close>, that number as score and date \<open>Unknown\<close>; a dictionary with a
  \<open>score\<close> key is kept unchanged, whatever the type of the score; any other entry is
  dropped. For a non-empty list, when every record so kept has a numeric score and string
  (or no) date and player name, and the file can be written, the normalized list replaces
  the score list and is saved, and a \<open>load_high_scores\<close> that follows returns it.
\<close>

theorem display_normalizes:
  "(num_val v \<noteq> None \<longrightarrow> normalize_entry v = [legacy_record v]) \<and>
   (map_of d ''score'' \<noteq> None \<longrightarrow> normalize_entry (JDict d) = [JDict d]) \<and>
   (num_val v = None \<and> dict_get v ''score'' = None \<longrightarrow> normalize_entry v = []) \<and>
   (high_scores g = JList xs \<and> xs \<noteq> [] \<and> (\<forall>x \<in> set (valid_scores xs). displayable x) \<and>
    write_error fs = None \<longrightarrow>
      fst (snd (show_high_scores g fs)) = g\<lparr>high_scores := JList (valid_scores xs)\<rparr> \<and>
      score_file (snd (snd (show_high_scores g fs))) = Document (JList (valid_scores xs)) \<and>
      load_high_scores g' (snd (snd (show_high_scores g fs))) =
        ([], g'\<lparr>high_scores := JList (valid_scores xs)\<rparr>))"
proof (intro conjI impI)
  show "normalize_entry v = [legacy_record v]" if "num_val v \<noteq> None"
    using that by (cases v) auto
  show "normalize_entry (JDict d) = [JDict d]" if "map_of d ''score'' \<noteq> None"
    using that by simp
  show "normalize_entry v = []" if "num_val v = None \<and> dict_get v ''score'' = None"
    using that by (cases v) auto
next
  assume a: "high_scores g = JList xs \<and> xs \<noteq> [] \<and>
    (\<forall>x \<in> set (valid_scores xs). displayable x) \<and> write_error fs = None"
  then have r: "snd (show_high_scores g fs) =
           (g\<lparr>high_scores := JList (valid_scores xs)\<rparr>,
            fs\<lparr>score_file := Document (JList (valid_scores xs))\<rparr>)"
    using show_high_scores_displayable [of g xs fs] by simp
  show "fst (snd (show_high_scores g fs)) = g\<lparr>high_scores := JList (valid_scores xs)\<rparr>"
    by (simp add: r)
  show "score_file (snd (snd (show_high_scores g fs))) = Document (JList (valid_scores xs))"
    by (simp add: r)
  show "load_high_scores g' (snd (snd (show_high_scores g fs))) =
        ([], g'\<lparr>high_scores := JList (valid_scores xs)\<rparr>)"
    by (simp add: r load_high_scores_def)
qed

theorem display_normalizes_witness:
  "normalize_entry (JInt 42) = [legacy_record (JInt 42)] \<and>
   normalize_entry (JDict [(''score'', JStr ''abc'')]) = [JDict [(''score'', JStr ''abc'')]] \<and>
   normalize_entry (JStr ''x'') = [] \<and>
   fst (snd (show_high_scores \<lparr>root = None, high_scores = JList [JInt 42]\<rparr>
      \<lparr>score_file = Missing, write_error = None\<rparr>)) =
     \<lparr>root = None, high_scores = JList [legacy_record (JInt 42)]\<rparr> \<and>
   load_high_scores \<lparr>root = None, high_scores = JList []\<rparr>
     (snd (snd (show_high_scores \<lparr>root = None, high_scores = JList [JInt 42]\<rparr>
        \<lparr>score_file = Missing, write_error = None\<rparr>))) =
     ([], \<lparr>root = None, high_scores =
        JList [JDict [(''player_name'', JStr ''Unknown''), (''score'', JInt 42),
                      (''date'', JStr ''Unknown'')]]\<rparr>)"
proof -
  have v: "valid_scores [JInt 42] = [legacy_record (JInt 42)]" by (simp add: valid_scores_def)
  have d: "displayable (legacy_record (JInt 42))"
    by (simp add: displayable_def sortable_def legacy_record_def get_default_def)
  show ?thesis
    using display_normalizes [of "JInt 42" "[(''score'', JStr ''abc'')]"
        "\<lparr>root = None, high_scores = JList [JInt 42]\<rparr>" "[JInt 42]"
        "\<lparr>score_file = Missing, write_error = None\<rparr>" "\<lparr>root = None, high_scores = JList []\<rparr>"]
      display_normalizes [of "JStr ''x''" "[]"
        "\<lparr>root = None, high_scores = JList []\<rparr>" "[]"
        "\<lparr>score_file = Missing, write_error = None\<rparr>" "\<lparr>root = None, high_scores = JList []\<rparr>"]
    by (simp add: v d [unfolded legacy_record_def] legacy_record_def)
qed

text \<open>
  The claim as stated fails in three ways. A record whose score is the string \<open>abc\<close> has
  neither shape and is kept (and saved). A record with score 1 whose player name is the
  number 7 has a numeric score and is not kept: printing its row raises, the score list is
  reset to empty and the empty list is saved. The JSON value \<open>true\<close> is neither a number nor
  a record and is upgraded like a number.
\<close>

theorem display_keeps_and_clears_counterexample:
  "\<not> is_number (JDict [(''score'', JStr ''abc'')]) \<and>
   \<not> record_with_numeric_score (JDict [(''score'', JStr ''abc'')]) \<and>
   snd (show_high_scores \<lparr>root = None, high_scores = JList [JDict [(''score'', JStr ''abc'')]]\<rparr>
          \<lparr>score_file = Missing, write_error = None\<rparr>) =
     (\<lparr>root = None, high_scores = JList [JDict [(''score'', JStr ''abc'')]]\<rparr>,
      \<lparr>score_file = Document (JList [JDict [(''score'', JStr ''abc'')]]), write_error = None\<rparr>) \<and>
   record_with_numeric_score (JDict [(''player_name'', JInt 7), (''score'', JInt 1)]) \<and>
   snd (show_high_scores
          \<lparr>root = None,
            high_scores = JList [JDict [(''player_name'', JInt 7), (''score'', JInt 1)]]\<rparr>
          \<lparr>score_file = Missing, write_error = None\<rparr>) =
     (\<lparr>root = None, high_scores = JList []\<rparr>,
      \<lparr>score_file = Document (JList []), write_error = None\<rparr>) \<and>
   \<not> is_number (JBool True) \<and> \<not> record_with_numeric_score (JBool True) \<and>
   normalize_entry (JBool True) = [legacy_record (JBool True)]"
  by (simp add: record_with_numeric_score_def show_high_scores_def show_body_def valid_scores_def
      sorted_scores_def score_key_def get_default_def table_row_def save_high_scores_def
      Let_def legacy_record_def)

end
